theory Spec2Isabelle
  imports Complex_Main
begin

section \<open>Time\<close>

text \<open>
  A \<open>datetime\<close> in the Bolivia zone is modelled as the number of microseconds of local
  wall-clock time since a fixed midnight.  The zone has a whole-hour offset and no daylight
  saving, so minute-of-hour and second-of-minute are read off that count directly.
  \<open>get_bolivia_now()\<close> reads the host clock; every read is an explicit argument of the
  function that performs it.
\<close>

type_synonym datetime = int

definition minute_of :: "datetime \<Rightarrow> int" where
  "minute_of t = (t div 60000000) mod 60"

definition second_of :: "datetime \<Rightarrow> int" where
  "second_of t = (t div 1000000) mod 60"

text \<open>\<open>(a - b).total_seconds()\<close>\<close>

definition total_seconds :: "datetime \<Rightarrow> datetime \<Rightarrow> real" where
  "total_seconds a b = real_of_int (a - b) / 1000000"

text \<open>\<open>timedelta(minutes=n)\<close> in microseconds.\<close>

definition minutes :: "int \<Rightarrow> int" where
  "minutes n = n * 60000000"

text \<open>A wall-clock instant \<open>h:m:s\<close> on day \<open>d\<close>, for concrete scenarios.\<close>

definition at_clock :: "int \<Rightarrow> int \<Rightarrow> int \<Rightarrow> int \<Rightarrow> datetime" where
  "at_clock d h m s = (((d * 24 + h) * 60 + m) * 60 + s) * 1000000"

section \<open>utils/time\_utils.py\<close>

definition is_on_the_hour :: "datetime \<Rightarrow> bool" where
  "is_on_the_hour now = (minute_of now = 0 \<and> second_of now < 5)"

text \<open>
  \<open>should_save_reading\<close> reads the clock twice: once inside \<open>is_on_the_hour()\<close>
  (\<open>now_a\<close>) and once for the elapsed time (\<open>now_b\<close>).
\<close>

definition should_save_reading :: "datetime option \<Rightarrow> datetime \<Rightarrow> datetime \<Rightarrow> bool" where
  "should_save_reading last_save_time now_a now_b =
     (if \<not> is_on_the_hour now_a then False
      else case last_save_time of
             None \<Rightarrow> True
           | Some l \<Rightarrow> total_seconds now_b l \<ge> 3540)"

section \<open>config/config.py\<close>

record Config =
  HEARTBEAT_TIMEOUT :: int
  TEMP_ALERT_RAPID_CHANGE :: real
  TEMP_ALERT_SLOW_INCREASE :: real
  TEMP_NORMAL_RANGE_MIN :: real
  TEMP_NORMAL_RANGE_MAX :: real

text \<open>The values used when the environment overrides nothing.\<close>

definition config :: Config where
  "config = \<lparr> HEARTBEAT_TIMEOUT = 6,
              TEMP_ALERT_RAPID_CHANGE = 3,
              TEMP_ALERT_SLOW_INCREASE = 3 / 2,
              TEMP_NORMAL_RANGE_MIN = - 5,
              TEMP_NORMAL_RANGE_MAX = 8 \<rparr>"

section \<open>services/temperature\_analyzer.py\<close>

datatype TemperatureAlertType =
  NONE | DOOR_OPENING | CRITICAL_INCREASE | CRITICAL_DECREASE | OUT_OF_RANGE

text \<open>
  Temperatures are Python floats.  They are modelled as real numbers: sums, means and
  comparisons are exact, and rounding error of the float arithmetic is not modelled.
\<close>

record TemperatureReading =
  temperature :: real
  timestamp :: datetime

text \<open>
  The text of an alert message is a formatted string; the model keeps which message it is
  and the number formatted into it.
\<close>

datatype alert_message =
    Calibrando
  | EstableciendoBaseline
  | DemasiadoBaja real
  | DemasiadoAlta real
  | PosibleApertura real
  | AumentoCritico real
  | DescensoCritico real
  | RecuperadaTrasApertura
  | Estabilizada
  | TemperaturaNormal

record TemperatureAnalyzer =
  readings :: "TemperatureReading list"
  baseline_temp :: "real option"
  last_alert :: "TemperatureAlertType option"
  alert_start_time :: "datetime option"
  recovery_detected :: bool
  consecutive_increases :: int
  consecutive_decreases :: int

text \<open>The dictionary returned by \<open>add_reading\<close>; keys that clash with fields get \<open>r_\<close>.\<close>

record analysis =
  alert_type :: TemperatureAlertType
  alert_msg :: alert_message
  current_temp :: real
  r_baseline_temp :: "real option"
  temp_change :: real
  is_recovering :: bool
  r_consecutive_increases :: int
  r_consecutive_decreases :: int

definition init_analyzer :: TemperatureAnalyzer where
  "init_analyzer = \<lparr> readings = [], baseline_temp = None, last_alert = None,
                     alert_start_time = None, recovery_detected = False,
                     consecutive_increases = 0, consecutive_decreases = 0 \<rparr>"

text \<open>\<open>deque(maxlen=120).append\<close>: a full deque drops its oldest entry.\<close>

definition deque_append :: "'a list \<Rightarrow> 'a \<Rightarrow> 'a list" where
  "deque_append xs x = (if length xs < 120 then xs @ [x] else tl xs @ [x])"

text \<open>\<open>xs[-n:]\<close>\<close>

definition last_n :: "nat \<Rightarrow> 'a list \<Rightarrow> 'a list" where
  "last_n n xs = drop (length xs - n) xs"

text \<open>\<open>sum(ts) / len(ts)\<close> on a non-empty list.\<close>

definition mean :: "real list \<Rightarrow> real" where
  "mean ts = sum_list ts / real (length ts)"

text \<open>\<open>round(x, 2)\<close>: nearest multiple of 0.01, ties to the even one.\<close>

definition round_half_even :: "real \<Rightarrow> int" where
  "round_half_even x =
     (let f = \<lfloor>x\<rfloor>; d = x - of_int f
      in if d < 1 / 2 then f else if 1 / 2 < d then f + 1 else if even f then f else f + 1)"

definition round2 :: "real \<Rightarrow> real" where
  "round2 x = of_int (round_half_even (x * 100)) / 100"

text \<open>\<open>self.last_alert and self.last_alert != TemperatureAlertType.NONE\<close>\<close>

definition alert_active :: "TemperatureAnalyzer \<Rightarrow> bool" where
  "alert_active s = (case last_alert s of None \<Rightarrow> False | Some a \<Rightarrow> a \<noteq> NONE)"

text \<open>Truth value of \<open>self.baseline_temp\<close>: \<open>None\<close> and \<open>0.0\<close> are both false.\<close>

definition baseline_truthy :: "real option \<Rightarrow> bool" where
  "baseline_truthy b = (case b of None \<Rightarrow> False | Some v \<Rightarrow> v \<noteq> 0)"

definition create_result ::
  "TemperatureAlertType \<Rightarrow> alert_message \<Rightarrow> bool \<Rightarrow> TemperatureAnalyzer
     \<Rightarrow> analysis \<times> TemperatureAnalyzer" where
  "create_result kind msg recovering s =
     (let s' = s\<lparr>last_alert := Some kind\<rparr>;
          cur = (if readings s' = [] then 0 else temperature (last (readings s')));
          chg = (if baseline_truthy (baseline_temp s') then cur - the (baseline_temp s') else 0)
      in (\<lparr> alert_type = kind,
            alert_msg = msg,
            current_temp = round2 cur,
            r_baseline_temp = (if baseline_truthy (baseline_temp s')
                               then Some (round2 (the (baseline_temp s'))) else None),
            temp_change = round2 chg,
            is_recovering = recovering,
            r_consecutive_increases = consecutive_increases s',
            r_consecutive_decreases = consecutive_decreases s' \<rparr>, s'))"

definition update_baseline :: "TemperatureAnalyzer \<Rightarrow> TemperatureAnalyzer" where
  "update_baseline s =
     (if length (readings s) < 20 then
        (if length (readings s) > 0
         then s\<lparr>baseline_temp := Some (mean (map temperature (readings s)))\<rparr>
         else s)
      else if alert_active s then s
      else s\<lparr>baseline_temp := Some (mean (map temperature (last_n 20 (readings s))))\<rparr>)"

text \<open>\<open>[r for r in self.readings if r.timestamp >= now - timedelta(minutes=n)]\<close>\<close>

definition window :: "int \<Rightarrow> datetime \<Rightarrow> TemperatureReading list \<Rightarrow> TemperatureReading list" where
  "window n now rs = filter (\<lambda>r. timestamp r \<ge> now - minutes n) rs"

definition check_rapid_change ::
  "Config \<Rightarrow> real \<Rightarrow> datetime \<Rightarrow> TemperatureAnalyzer
     \<Rightarrow> (analysis \<times> TemperatureAnalyzer) option" where
  "check_rapid_change cfg current now s =
     (let old_readings = window 5 now (readings s)
      in if length old_readings < 5 then None
         else let temp_change_5min = current - temperature (hd old_readings)
              in if temp_change_5min > TEMP_ALERT_RAPID_CHANGE cfg
                 then Some (create_result DOOR_OPENING (PosibleApertura temp_change_5min) False
                              (if last_alert s \<noteq> Some DOOR_OPENING
                               then s\<lparr>alert_start_time := Some now\<rparr> else s))
                 else None)"

text \<open>The counter bookkeeping at the head of \<open>_check_gradual_change\<close>.\<close>

definition track_consecutive :: "real \<Rightarrow> TemperatureAnalyzer \<Rightarrow> TemperatureAnalyzer" where
  "track_consecutive current s =
     (if length (readings s) \<ge> 2 then
        (let prev_temp = temperature (readings s ! (length (readings s) - 2))
         in if current > prev_temp
            then s\<lparr>consecutive_increases := consecutive_increases s + 1,
                   consecutive_decreases := 0\<rparr>
            else if current < prev_temp
            then s\<lparr>consecutive_decreases := consecutive_decreases s + 1,
                   consecutive_increases := 0\<rparr>
            else s)
      else s)"

text \<open>
  \<open>_check_gradual_change\<close> changes the counters whether or not it reports: it returns the
  verdict, if any, and the analyzer as it leaves it.
\<close>

definition check_gradual_change ::
  "Config \<Rightarrow> real \<Rightarrow> real \<Rightarrow> datetime \<Rightarrow> TemperatureAnalyzer
     \<Rightarrow> analysis option \<times> TemperatureAnalyzer" where
  "check_gradual_change cfg current chg now s =
     (let s1 = track_consecutive current s;
          old_readings = window 10 now (readings s1)
      in if length old_readings < 10 then (None, s1)
         else let temp_change_10min = current - temperature (hd old_readings)
              in if temp_change_10min > TEMP_ALERT_SLOW_INCREASE cfg
                    \<and> consecutive_increases s1 \<ge> 5
                 then (case create_result CRITICAL_INCREASE (AumentoCritico temp_change_10min) False
                              (if last_alert s1 \<noteq> Some CRITICAL_INCREASE
                               then s1\<lparr>alert_start_time := Some now\<rparr> else s1)
                       of (r, s2) \<Rightarrow> (Some r, s2))
                 else if temp_change_10min < - TEMP_ALERT_SLOW_INCREASE cfg
                    \<and> consecutive_decreases s1 \<ge> 5
                 then (case create_result CRITICAL_DECREASE (DescensoCritico temp_change_10min) False
                              (if last_alert s1 \<noteq> Some CRITICAL_DECREASE
                               then s1\<lparr>alert_start_time := Some now\<rparr> else s1)
                       of (r, s2) \<Rightarrow> (Some r, s2))
                 else (None, s1))"

definition check_recovery ::
  "real \<Rightarrow> real \<Rightarrow> TemperatureAnalyzer \<Rightarrow> (analysis \<times> TemperatureAnalyzer) option" where
  "check_recovery current chg s =
     (if last_alert s = Some DOOR_OPENING \<and> \<bar>chg\<bar> < 1 / 2
      then Some (create_result NONE RecuperadaTrasApertura True
                   (s\<lparr>consecutive_increases := 0, alert_start_time := None\<rparr>))
      else if (last_alert s = Some CRITICAL_INCREASE \<or> last_alert s = Some CRITICAL_DECREASE)
              \<and> \<bar>chg\<bar> < 1
      then Some (create_result NONE Estabilizada True
                   (s\<lparr>consecutive_increases := 0, consecutive_decreases := 0,
                      alert_start_time := None\<rparr>))
      else None)"

definition analyze_pattern ::
  "Config \<Rightarrow> real \<Rightarrow> datetime \<Rightarrow> TemperatureAnalyzer \<Rightarrow> analysis \<times> TemperatureAnalyzer" where
  "analyze_pattern cfg current now s =
     (case baseline_temp s of
        None \<Rightarrow> create_result NONE EstableciendoBaseline False s
      | Some b \<Rightarrow>
          (let chg = current - b
           in if current < TEMP_NORMAL_RANGE_MIN cfg
              then create_result OUT_OF_RANGE (DemasiadoBaja current) False s
              else if current > TEMP_NORMAL_RANGE_MAX cfg
              then create_result OUT_OF_RANGE (DemasiadoAlta current) False s
              else case check_rapid_change cfg current now s of
                     Some res \<Rightarrow> res
                   | None \<Rightarrow>
                       (case check_gradual_change cfg current chg now s of
                          (Some r, s1) \<Rightarrow> (r, s1)
                        | (None, s1) \<Rightarrow>
                            (case (if alert_active s1 then check_recovery current chg s1 else None) of
                               Some res \<Rightarrow> res
                             | None \<Rightarrow>
                                 create_result NONE TemperaturaNormal False
                                   (s1\<lparr>consecutive_increases := 0,
                                       consecutive_decreases := 0\<rparr>)))))"

definition add_reading ::
  "Config \<Rightarrow> datetime \<Rightarrow> real \<Rightarrow> TemperatureAnalyzer \<Rightarrow> analysis \<times> TemperatureAnalyzer" where
  "add_reading cfg now temp s =
     (let s1 = s\<lparr>readings := deque_append (readings s) \<lparr>temperature = temp, timestamp = now\<rparr>\<rparr>
      in if length (readings s1) < 5
         then create_result NONE Calibrando False (update_baseline s1)
         else analyze_pattern cfg temp now (update_baseline s1))"

text \<open>A caller feeding readings one after the other, each with the clock value of its call.\<close>

fun feed ::
  "Config \<Rightarrow> (datetime \<times> real) list \<Rightarrow> TemperatureAnalyzer
     \<Rightarrow> analysis list \<times> TemperatureAnalyzer" where
  "feed cfg [] s = ([], s)"
| "feed cfg ((now, temp) # rest) s =
     (let (a, s1) = add_reading cfg now temp s;
          (as, s2) = feed cfg rest s1
      in (a # as, s2))"

section \<open>services/heartbeat\_monitor.py\<close>

record HeartbeatMonitor =
  last_heartbeat_time :: "datetime option"
  is_online :: bool
  timeout_seconds :: int

datatype heartbeat_signal = device_connected | device_disconnected

definition init_monitor :: "Config \<Rightarrow> HeartbeatMonitor" where
  "init_monitor cfg = \<lparr> last_heartbeat_time = None, is_online = False,
                        timeout_seconds = HEARTBEAT_TIMEOUT cfg \<rparr>"

definition register_heartbeat ::
  "datetime \<Rightarrow> HeartbeatMonitor \<Rightarrow> heartbeat_signal list \<times> HeartbeatMonitor" where
  "register_heartbeat now m =
     (let was_offline = \<not> is_online m;
          m' = m\<lparr>last_heartbeat_time := Some now, is_online := True\<rparr>
      in (if was_offline then [device_connected] else [], m'))"

definition check_timeout ::
  "datetime \<Rightarrow> HeartbeatMonitor \<Rightarrow> heartbeat_signal list \<times> HeartbeatMonitor" where
  "check_timeout now m =
     (case last_heartbeat_time m of
        None \<Rightarrow> ([], m)
      | Some l \<Rightarrow>
          (let elapsed_seconds = total_seconds now l
           in if elapsed_seconds > real_of_int (timeout_seconds m) \<and> is_online m
              then ([device_disconnected], m\<lparr>is_online := False\<rparr>)
              else ([], m)))"

text \<open>The timer firing \<open>_check_timeout\<close> at each of the given clock values, in order.\<close>

fun timer_ticks ::
  "datetime list \<Rightarrow> HeartbeatMonitor \<Rightarrow> heartbeat_signal list \<times> HeartbeatMonitor" where
  "timer_ticks [] m = ([], m)"
| "timer_ticks (now # rest) m =
     (let (ev, m1) = check_timeout now m;
          (evs, m2) = timer_ticks rest m1
      in (ev @ evs, m2))"

section \<open>services/data\_manager.py\<close>

text \<open>The parsed message handed to \<open>process_sensor_data\<close>.\<close>

record sensor_data =
  device_id :: string
  d_temperature :: real
  d_pressure :: real
  d_altitude :: real
  d_rssi :: int
  d_timestamp :: datetime

text \<open>The \<open>current_data\<close> dictionary; \<open>None\<close> is Python's \<open>None\<close>, or a key not yet set.\<close>

record current_data =
  cd_device_id :: string
  cd_temperature :: "real option"
  cd_pressure :: "real option"
  cd_altitude :: "real option"
  cd_rssi :: "int option"
  cd_timestamp :: "datetime option"
  cd_status :: string
  cd_analysis :: "analysis option"

text \<open>
  The storage layer is outside the engine.  A call of \<open>save_temperature_reading\<close> either
  returns the stored record, returns \<open>None\<close>, or raises.
\<close>

record stored_reading =
  sr_temperature :: real
  sr_recorded_at :: datetime

datatype save_outcome = Returns "stored_reading option" | Raises

datatype signal =
    new_data_available current_data
  | temperature_alert analysis
  | data_saved_to_db real datetime int

record DataManager =
  temp_analyzer :: TemperatureAnalyzer
  current :: current_data
  last_save_time :: "datetime option"
  total_readings_received :: int
  total_readings_saved :: int

definition init_data_manager :: "string \<Rightarrow> DataManager" where
  "init_data_manager dev =
     \<lparr> temp_analyzer = init_analyzer,
       current = \<lparr> cd_device_id = dev, cd_temperature = None, cd_pressure = None,
                   cd_altitude = None, cd_rssi = None, cd_timestamp = None,
                   cd_status = ''waiting'', cd_analysis = None \<rparr>,
       last_save_time = None,
       total_readings_received = 0,
       total_readings_saved = 0 \<rparr>"

text \<open>
  \<open>process_sensor_data\<close>: the device-status update in storage changes nothing of the
  manager, and its exceptions are swallowed where it is called, so it does not appear.
  The signals are listed in the order they are emitted.
\<close>

definition process_sensor_data ::
  "Config \<Rightarrow> datetime \<Rightarrow> sensor_data \<Rightarrow> DataManager \<Rightarrow> signal list \<times> DataManager" where
  "process_sensor_data cfg now data dm =
     (let dm1 = dm\<lparr>total_readings_received := total_readings_received dm + 1\<rparr>;
          cd1 = (current dm1)\<lparr>cd_temperature := Some (d_temperature data),
                               cd_pressure := Some (d_pressure data),
                               cd_altitude := Some (d_altitude data),
                               cd_rssi := Some (d_rssi data),
                               cd_timestamp := Some (d_timestamp data),
                               cd_status := ''normal''\<rparr>;
          (a, az) = add_reading cfg now (d_temperature data) (temp_analyzer dm1);
          cd2 = cd1\<lparr>cd_analysis := Some a\<rparr>;
          dm2 = dm1\<lparr>temp_analyzer := az, current := cd2\<rparr>
      in ((if alert_type a \<noteq> NONE then [temperature_alert a] else [])
            @ [new_data_available cd2], dm2))"

definition save_to_database ::
  "datetime \<Rightarrow> save_outcome \<Rightarrow> DataManager \<Rightarrow> signal list \<times> DataManager" where
  "save_to_database now outcome dm =
     (case outcome of
        Raises \<Rightarrow> ([], dm)
      | Returns None \<Rightarrow> ([], dm)
      | Returns (Some reading) \<Rightarrow>
          (let dm' = dm\<lparr>last_save_time := Some now,
                         total_readings_saved := total_readings_saved dm + 1\<rparr>
           in ([data_saved_to_db (sr_temperature reading) (sr_recorded_at reading)
                  (total_readings_saved dm')], dm')))"

text \<open>
  \<open>_check_save_to_db\<close>: \<open>now_a\<close> and \<open>now_b\<close> are the two clock reads of
  \<open>should_save_reading\<close>, \<open>now_c\<close> the one of \<open>_save_to_database\<close>.
\<close>

definition check_save_to_db ::
  "datetime \<Rightarrow> datetime \<Rightarrow> datetime \<Rightarrow> save_outcome \<Rightarrow> DataManager
     \<Rightarrow> signal list \<times> DataManager" where
  "check_save_to_db now_a now_b now_c outcome dm =
     (if cd_temperature (current dm) = None then ([], dm)
      else if should_save_reading (last_save_time dm) now_a now_b
      then save_to_database now_c outcome dm
      else ([], dm))"

text \<open>The transport adapter handing over one message after the other.\<close>

fun process_all ::
  "Config \<Rightarrow> (datetime \<times> sensor_data) list \<Rightarrow> DataManager
     \<Rightarrow> signal list list \<times> DataManager" where
  "process_all cfg [] dm = ([], dm)"
| "process_all cfg ((now, data) # rest) dm =
     (let (sigs, dm1) = process_sensor_data cfg now data dm;
          (sigss, dm2) = process_all cfg rest dm1
      in (sigs # sigss, dm2))"

text \<open>The alert kinds carried by the \<open>temperature_alert\<close> signals of a signal list.\<close>

fun alert_kinds :: "signal list \<Rightarrow> TemperatureAlertType list" where
  "alert_kinds [] = []"
| "alert_kinds (temperature_alert a # sigs) = alert_type a # alert_kinds sigs"
| "alert_kinds (_ # sigs) = alert_kinds sigs"

text \<open>
  A parsed message as the message handler builds it when only the temperature is sent:
  the optional numeric fields default to zero.
\<close>

definition sensor_msg :: "real \<Rightarrow> datetime \<Rightarrow> sensor_data" where
  "sensor_msg temp ts = \<lparr> device_id = ''esp32-fridge-001'', d_temperature = temp,
                          d_pressure = 0, d_altitude = 0, d_rssi = 0, d_timestamp = ts \<rparr>"

section \<open>Scenarios\<close>


definition door_recovery_trace :: "(datetime \<times> real) list" where
  "door_recovery_trace = [(15000000, 4), (30000000, 4), (45000000, 4), (60000000, 4),
                          (75000000, 15 / 2), (90000000, 5)]"

definition oscillating_trace :: "(datetime \<times> real) list" where
  "oscillating_trace =
     [(15000000, 4), (30000000, 4), (45000000, 4), (60000000, 4),
      (75000000, 15 / 2), (90000000, 5), (105000000, 15 / 2), (120000000, 5),
      (135000000, 15 / 2), (150000000, 5), (165000000, 15 / 2), (180000000, 11 / 2),
      (195000000, 15 / 2), (210000000, 2)]"

definition zero_baseline_trace :: "(datetime \<times> real) list" where
  "zero_baseline_trace = [(15000000, 1), (30000000, - 1)]"


section \<open>Evaluation and frame lemmas\<close>

lemmas analyzer_defs =
  add_reading_def init_analyzer_def deque_append_def update_baseline_def create_result_def
  mean_def Let_def analyze_pattern_def check_rapid_change_def check_gradual_change_def
  check_recovery_def track_consecutive_def window_def minutes_def baseline_truthy_def
  alert_active_def last_n_def config_def round2_def round_half_even_def

lemma create_result_snd [simp]:
  "snd (create_result k m r s) = s\<lparr>last_alert := Some k\<rparr>"
  by (simp add: create_result_def Let_def)

lemma create_result_fst [simp]:
  "alert_type (fst (create_result k m r s)) = k"
  "is_recovering (fst (create_result k m r s)) = r"
  "r_consecutive_increases (fst (create_result k m r s)) = consecutive_increases s"
  "r_consecutive_decreases (fst (create_result k m r s)) = consecutive_decreases s"
  by (simp_all add: create_result_def Let_def)

lemma update_baseline_frame [simp]:
  "last_alert (update_baseline s) = last_alert s"
  "consecutive_increases (update_baseline s) = consecutive_increases s"
  "consecutive_decreases (update_baseline s) = consecutive_decreases s"
  "readings (update_baseline s) = readings s"
  by (simp_all add: update_baseline_def)

lemma track_consecutive_frame [simp]:
  "last_alert (track_consecutive t s) = last_alert s"
  "readings (track_consecutive t s) = readings s"
  "baseline_temp (track_consecutive t s) = baseline_temp s"
  by (simp_all add: track_consecutive_def Let_def)

lemma check_rapid_change_Some:
  assumes "check_rapid_change cfg t now s = Some res"
  shows "alert_type (fst res) = DOOR_OPENING"
    and "last_alert (snd res) = Some DOOR_OPENING"
    and "consecutive_increases (snd res) = consecutive_increases s"
    and "consecutive_decreases (snd res) = consecutive_decreases s"
    and "baseline_temp (snd res) = baseline_temp s"
    and "r_consecutive_increases (fst res) = consecutive_increases s"
    and "r_consecutive_decreases (fst res) = consecutive_decreases s"
    and "readings (snd res) = readings s"
  using assms by (auto simp: check_rapid_change_def Let_def split: if_splits)

lemma check_gradual_change_None:
  assumes "check_gradual_change cfg t chg now s = (None, s1)"
  shows "s1 = track_consecutive t s"
  using assms
  by (auto simp: check_gradual_change_def Let_def split: if_splits prod.splits)

lemma check_gradual_change_Some:
  assumes "check_gradual_change cfg t chg now s = (Some r, s1)"
  shows "10 \<le> length (window 10 now (readings s))"
    and "last_alert s1 = Some (alert_type r)"
    and "baseline_temp s1 = baseline_temp s"
    and "readings s1 = readings s"
    and "consecutive_increases s1 = consecutive_increases (track_consecutive t s)"
    and "consecutive_decreases s1 = consecutive_decreases (track_consecutive t s)"
    and "r_consecutive_increases r = consecutive_increases s1"
    and "r_consecutive_decreases r = consecutive_decreases s1"
    and "(alert_type r = CRITICAL_INCREASE
            \<and> TEMP_ALERT_SLOW_INCREASE cfg < t - temperature (hd (window 10 now (readings s)))
            \<and> 5 \<le> consecutive_increases (track_consecutive t s))
         \<or> (alert_type r = CRITICAL_DECREASE
            \<and> t - temperature (hd (window 10 now (readings s))) < - TEMP_ALERT_SLOW_INCREASE cfg
            \<and> 5 \<le> consecutive_decreases (track_consecutive t s))"
  using assms
  by (auto simp: check_gradual_change_def create_result_def Let_def
           split: if_splits prod.splits)

lemma check_recovery_Some:
  assumes "check_recovery t chg s = Some res"
  shows "alert_type (fst res) = NONE"
    and "last_alert (snd res) = Some NONE"
    and "baseline_temp (snd res) = baseline_temp s"
    and "readings (snd res) = readings s"
  using assms by (auto simp: check_recovery_def split: if_splits)

text \<open>The paths through \<open>_analyze_pattern\<close>, in the order the source tries them.\<close>

lemma analyze_pattern_cases [case_names no_baseline too_low too_high rapid gradual recovery normal]:
  fixes cfg t now s
  obtains
    "baseline_temp s = None"
    "analyze_pattern cfg t now s = create_result NONE EstableciendoBaseline False s"
  | b where "baseline_temp s = Some b" "t < TEMP_NORMAL_RANGE_MIN cfg"
    "analyze_pattern cfg t now s = create_result OUT_OF_RANGE (DemasiadoBaja t) False s"
  | b where "baseline_temp s = Some b" "TEMP_NORMAL_RANGE_MAX cfg < t"
    "analyze_pattern cfg t now s = create_result OUT_OF_RANGE (DemasiadoAlta t) False s"
  | b res where "baseline_temp s = Some b"
    "check_rapid_change cfg t now s = Some res"
    "analyze_pattern cfg t now s = res"
  | b r s1 where "baseline_temp s = Some b"
    "check_rapid_change cfg t now s = None"
    "check_gradual_change cfg t (t - b) now s = (Some r, s1)"
    "analyze_pattern cfg t now s = (r, s1)"
  | b res where "baseline_temp s = Some b"
    "\<not> t < TEMP_NORMAL_RANGE_MIN cfg" "\<not> TEMP_NORMAL_RANGE_MAX cfg < t"
    "check_rapid_change cfg t now s = None"
    "check_gradual_change cfg t (t - b) now s = (None, track_consecutive t s)"
    "alert_active s"
    "check_recovery t (t - b) (track_consecutive t s) = Some res"
    "analyze_pattern cfg t now s = res"
  | b where "baseline_temp s = Some b"
    "\<not> t < TEMP_NORMAL_RANGE_MIN cfg" "\<not> TEMP_NORMAL_RANGE_MAX cfg < t"
    "check_rapid_change cfg t now s = None"
    "check_gradual_change cfg t (t - b) now s = (None, track_consecutive t s)"
    "\<not> alert_active s \<or> check_recovery t (t - b) (track_consecutive t s) = None"
    "analyze_pattern cfg t now s =
       create_result NONE TemperaturaNormal False
         ((track_consecutive t s)\<lparr>consecutive_increases := 0, consecutive_decreases := 0\<rparr>)"
proof (cases "baseline_temp s")
  case None
  then show ?thesis using that(1) by (simp add: analyze_pattern_def)
next
  case (Some b)
  note B = this
  show ?thesis
  proof (cases "t < TEMP_NORMAL_RANGE_MIN cfg")
    case True
    then show ?thesis using that(2)[of b] B by (simp add: analyze_pattern_def Let_def)
  next
    case lo: False
    show ?thesis
    proof (cases "TEMP_NORMAL_RANGE_MAX cfg < t")
      case True
      then show ?thesis using that(3)[of b] B lo by (simp add: analyze_pattern_def Let_def)
    next
      case hi: False
      show ?thesis
      proof (cases "check_rapid_change cfg t now s")
        case (Some res)
        then show ?thesis using that(4)[of b res] B lo hi by (simp add: analyze_pattern_def Let_def)
      next
        case R: None
        obtain g s1 where G: "check_gradual_change cfg t (t - b) now s = (g, s1)"
          by (cases "check_gradual_change cfg t (t - b) now s")
        show ?thesis
        proof (cases g)
          case (Some r)
          then show ?thesis using that(5)[of b r s1] B lo hi R G
            by (simp add: analyze_pattern_def Let_def)
        next
          case gN: None
          have S1: "s1 = track_consecutive t s"
            using G gN check_gradual_change_None by blast
          have A: "alert_active s1 = alert_active s"
            by (simp add: S1 alert_active_def)
          show ?thesis
          proof (cases "alert_active s \<and> check_recovery t (t - b) (track_consecutive t s) \<noteq> None")
            case True
            then obtain res where C: "check_recovery t (t - b) (track_consecutive t s) = Some res"
              by blast
            show ?thesis
              using that(6)[of b res] B lo hi R G gN S1 A True C
              by (simp add: analyze_pattern_def Let_def)
          next
            case False
            then have D: "\<not> alert_active s \<or> check_recovery t (t - b) (track_consecutive t s) = None"
              by blast
            have "analyze_pattern cfg t now s =
                    create_result NONE TemperaturaNormal False
                      ((track_consecutive t s)\<lparr>consecutive_increases := 0, consecutive_decreases := 0\<rparr>)"
              using B lo hi R G gN D A S1 by (auto simp add: analyze_pattern_def Let_def)
            then show ?thesis
              using that(7)[of b] B lo hi R G gN S1 D by blast
          qed
        qed
      qed
    qed
  qed
qed

lemma analyze_pattern_last_alert:
  "last_alert (snd (analyze_pattern cfg t now s)) = Some (alert_type (fst (analyze_pattern cfg t now s)))"
proof (cases cfg t now s rule: analyze_pattern_cases)
  case (rapid b res)
  then show ?thesis using check_rapid_change_Some[OF rapid(2)] by simp
next
  case (gradual b r s1)
  then show ?thesis using check_gradual_change_Some[OF gradual(3)] by simp
next
  case (recovery b res)
  then show ?thesis using check_recovery_Some[OF recovery(7)] by simp
qed simp_all

lemma analyze_pattern_counters_frame:
  assumes "alert_type (fst (analyze_pattern cfg t now s)) = OUT_OF_RANGE
           \<or> alert_type (fst (analyze_pattern cfg t now s)) = DOOR_OPENING"
  shows "consecutive_increases (snd (analyze_pattern cfg t now s)) = consecutive_increases s
       \<and> consecutive_decreases (snd (analyze_pattern cfg t now s)) = consecutive_decreases s
       \<and> r_consecutive_increases (fst (analyze_pattern cfg t now s)) = consecutive_increases s
       \<and> r_consecutive_decreases (fst (analyze_pattern cfg t now s)) = consecutive_decreases s"
proof (cases cfg t now s rule: analyze_pattern_cases)
  case (rapid b res)
  then show ?thesis using check_rapid_change_Some[OF rapid(2)] by simp
next
  case (gradual b r s1)
  then show ?thesis using check_gradual_change_Some[OF gradual(3)] assms by auto
next
  case (recovery b res)
  then show ?thesis using check_recovery_Some[OF recovery(7)] assms by simp
qed (use assms in simp_all)




lemma deque_append_prev:
  assumes "xs \<noteq> []"
  shows "deque_append xs x ! (length (deque_append xs x) - 2) = last xs"
proof (cases "length xs < 120")
  case True
  then show ?thesis using assms
    by (simp add: deque_append_def nth_append last_conv_nth)
next
  case False
  then have L: "2 \<le> length xs" by simp
  obtain n where N: "length xs = Suc (Suc n)"
    using L by (metis Suc_le_D numeral_2_eq_2 Suc_le_mono)
  have A: "deque_append xs x = tl xs @ [x]"
    using False by (simp add: deque_append_def)
  have "deque_append xs x ! (length (deque_append xs x) - 2) = (tl xs @ [x]) ! n"
    by (simp add: A N)
  also have "\<dots> = tl xs ! n"
    by (simp add: nth_append N)
  also have "\<dots> = xs ! Suc n"
    by (simp add: nth_tl N)
  finally show ?thesis using assms by (simp add: last_conv_nth N)
qed

lemma analyze_pattern_readings:
  "readings (snd (analyze_pattern cfg t now s)) = readings s"
proof (cases cfg t now s rule: analyze_pattern_cases)
  case (rapid b res)
  then show ?thesis using check_rapid_change_Some[OF rapid(2)] by simp
next
  case (gradual b r s1)
  then show ?thesis using check_gradual_change_Some[OF gradual(3)] by simp
next
  case (recovery b res)
  then show ?thesis using check_recovery_Some[OF recovery(7)] by simp
qed simp_all

lemma track_consecutive_down:
  "2 \<le> length (readings s) \<Longrightarrow> t < temperature (readings s ! (length (readings s) - 2))
     \<Longrightarrow> consecutive_increases (track_consecutive t s) = 0"
  by (simp add: track_consecutive_def Let_def)

lemma track_consecutive_up:
  "2 \<le> length (readings s) \<Longrightarrow> temperature (readings s ! (length (readings s) - 2)) < t
     \<Longrightarrow> consecutive_decreases (track_consecutive t s) = 0"
  by (simp add: track_consecutive_def Let_def)

lemma analyze_pattern_critical_increase:
  assumes "alert_type (fst (analyze_pattern cfg t now s)) = CRITICAL_INCREASE"
  shows "10 \<le> length (window 10 now (readings s))
       \<and> TEMP_ALERT_SLOW_INCREASE cfg < t - temperature (hd (window 10 now (readings s)))
       \<and> 5 \<le> consecutive_increases (track_consecutive t s)
       \<and> r_consecutive_increases (fst (analyze_pattern cfg t now s))
           = consecutive_increases (track_consecutive t s)"
proof (cases cfg t now s rule: analyze_pattern_cases)
  case (rapid b res)
  then show ?thesis using check_rapid_change_Some[OF rapid(2)] assms by simp
next
  case (gradual b r s1)
  then show ?thesis using check_gradual_change_Some[OF gradual(3)] assms by auto
next
  case (recovery b res)
  then show ?thesis using check_recovery_Some[OF recovery(7)] assms by simp
qed (use assms in simp_all)

lemma analyze_pattern_critical_decrease:
  assumes "alert_type (fst (analyze_pattern cfg t now s)) = CRITICAL_DECREASE"
  shows "10 \<le> length (window 10 now (readings s))
       \<and> t - temperature (hd (window 10 now (readings s))) < - TEMP_ALERT_SLOW_INCREASE cfg
       \<and> 5 \<le> consecutive_decreases (track_consecutive t s)
       \<and> r_consecutive_decreases (fst (analyze_pattern cfg t now s))
           = consecutive_decreases (track_consecutive t s)"
proof (cases cfg t now s rule: analyze_pattern_cases)
  case (rapid b res)
  then show ?thesis using check_rapid_change_Some[OF rapid(2)] assms by simp
next
  case (gradual b r s1)
  then show ?thesis using check_gradual_change_Some[OF gradual(3)] assms by auto
next
  case (recovery b res)
  then show ?thesis using check_recovery_Some[OF recovery(7)] assms by simp
qed (use assms in simp_all)

lemma add_reading_critical:
  assumes "alert_type (fst (add_reading cfg now t s)) = CRITICAL_INCREASE
         \<or> alert_type (fst (add_reading cfg now t s)) = CRITICAL_DECREASE"
  shows "5 \<le> length (deque_append (readings s) \<lparr>temperature = t, timestamp = now\<rparr>)"
    and "add_reading cfg now t s = analyze_pattern cfg t now
           (update_baseline (s\<lparr>readings := deque_append (readings s) \<lparr>temperature = t, timestamp = now\<rparr>\<rparr>))"
  using assms by (auto simp: add_reading_def Let_def split: if_splits)

lemma check_recovery_iff:
  "check_recovery t chg s \<noteq> None \<longleftrightarrow>
     (last_alert s = Some DOOR_OPENING \<and> \<bar>chg\<bar> < 1 / 2)
     \<or> ((last_alert s = Some CRITICAL_INCREASE \<or> last_alert s = Some CRITICAL_DECREASE)
         \<and> \<bar>chg\<bar> < 1)"
  by (simp add: check_recovery_def)

lemma check_recovery_increases:
  "check_recovery t chg s = Some res \<Longrightarrow> consecutive_increases (snd res) = 0"
  by (auto simp: check_recovery_def split: if_splits)

text \<open>
  Every call that does not report \<open>CRITICAL_INCREASE\<close> leaves \<open>consecutive_increases\<close>
  at 0 when it was 0 before: the recovery and normal paths reset it.  So an analyzer fed
  from its initial state never reports \<open>CRITICAL_INCREASE\<close>.
\<close>

lemma track_consecutive_from_zero:
  assumes "consecutive_increases s = 0"
  shows "consecutive_increases (track_consecutive t s) = 0
       \<or> (consecutive_increases (track_consecutive t s) = 1
           \<and> consecutive_decreases (track_consecutive t s) = 0)"
  using assms by (simp add: track_consecutive_def Let_def)

lemma analyze_pattern_increases_zero:
  assumes "consecutive_increases s = 0"
  shows "consecutive_increases (snd (analyze_pattern cfg t now s)) = 0
       \<and> alert_type (fst (analyze_pattern cfg t now s)) \<noteq> CRITICAL_INCREASE"
proof (cases cfg t now s rule: analyze_pattern_cases)
  case (rapid b res)
  then show ?thesis using check_rapid_change_Some[OF rapid(2)] assms by simp
next
  case (gradual b r s1)
  note g = check_gradual_change_Some[OF gradual(3)]
  from track_consecutive_from_zero[OF assms, of t] g(9) g(5)
  have "alert_type r = CRITICAL_DECREASE \<and> consecutive_increases s1 = 0"
    by auto
  then show ?thesis using gradual by simp
next
  case (recovery b res)
  then show ?thesis
    using check_recovery_Some[OF recovery(7)] check_recovery_increases[OF recovery(7)] by simp
qed (use assms in simp_all)

lemma add_reading_increases_zero:
  assumes "consecutive_increases s = 0"
  shows "consecutive_increases (snd (add_reading cfg now t s)) = 0
       \<and> alert_type (fst (add_reading cfg now t s)) \<noteq> CRITICAL_INCREASE"
  using assms analyze_pattern_increases_zero[of
      "update_baseline (s\<lparr>readings := deque_append (readings s) \<lparr>temperature = t, timestamp = now\<rparr>\<rparr>)"
      cfg t now]
  by (simp add: add_reading_def Let_def)

lemma feed_never_critical_increase:
  assumes "consecutive_increases s = 0"
  shows "CRITICAL_INCREASE \<notin> set (map alert_type (fst (feed cfg xs s)))
       \<and> consecutive_increases (snd (feed cfg xs s)) = 0"
  using assms
proof (induction xs arbitrary: s)
  case Nil
  then show ?case by simp
next
  case (Cons x xs)
  obtain now t where x: "x = (now, t)" by (cases x)
  obtain a s1 where r: "add_reading cfg now t s = (a, s1)" by (cases "add_reading cfg now t s")
  have z: "consecutive_increases s1 = 0 \<and> alert_type a \<noteq> CRITICAL_INCREASE"
    using add_reading_increases_zero[OF Cons.prems, of cfg now t] r by simp
  obtain as s2 where f: "feed cfg xs s1 = (as, s2)" by (cases "feed cfg xs s1")
  show ?case using Cons.IH[of s1] z x r f by auto
qed

text \<open>
  What a call that reports a critical kind guarantees, for every analyzer state: at least
  ten samples in the ten-minute window, a delta beyond the threshold against the oldest of
  them, a counter of at least 5, and no strict move in the opposite direction on that call.
\<close>

lemma critical_verdict_conditions:
  "(alert_type (fst (add_reading cfg now t s)) = CRITICAL_INCREASE \<longrightarrow>
      10 \<le> length (window 10 now (readings (snd (add_reading cfg now t s))))
      \<and> TEMP_ALERT_SLOW_INCREASE cfg
           < t - temperature (hd (window 10 now (readings (snd (add_reading cfg now t s)))))
      \<and> 5 \<le> r_consecutive_increases (fst (add_reading cfg now t s))
      \<and> \<not> (readings s \<noteq> [] \<and> t < temperature (last (readings s))))
   \<and> (alert_type (fst (add_reading cfg now t s)) = CRITICAL_DECREASE \<longrightarrow>
      10 \<le> length (window 10 now (readings (snd (add_reading cfg now t s))))
      \<and> t - temperature (hd (window 10 now (readings (snd (add_reading cfg now t s)))))
           < - TEMP_ALERT_SLOW_INCREASE cfg
      \<and> 5 \<le> r_consecutive_decreases (fst (add_reading cfg now t s))
      \<and> \<not> (readings s \<noteq> [] \<and> temperature (last (readings s)) < t))"
proof -
  define s1 where "s1 = update_baseline
     (s\<lparr>readings := deque_append (readings s) \<lparr>temperature = t, timestamp = now\<rparr>\<rparr>)"
  have R: "readings s1 = deque_append (readings s) \<lparr>temperature = t, timestamp = now\<rparr>"
    by (simp add: s1_def)
  have RS: "readings (snd (analyze_pattern cfg t now s1)) = readings s1"
    by (rule analyze_pattern_readings)
  have up: "alert_type (fst (add_reading cfg now t s)) = CRITICAL_INCREASE \<Longrightarrow>
      10 \<le> length (window 10 now (readings (snd (add_reading cfg now t s))))
      \<and> TEMP_ALERT_SLOW_INCREASE cfg
           < t - temperature (hd (window 10 now (readings (snd (add_reading cfg now t s)))))
      \<and> 5 \<le> r_consecutive_increases (fst (add_reading cfg now t s))
      \<and> \<not> (readings s \<noteq> [] \<and> t < temperature (last (readings s)))"
  proof -
    assume a: "alert_type (fst (add_reading cfg now t s)) = CRITICAL_INCREASE"
    have len: "5 \<le> length (readings s1)" and eq: "add_reading cfg now t s = analyze_pattern cfg t now s1"
      using add_reading_critical[of cfg now t s] a by (simp_all add: R s1_def)
    have c: "alert_type (fst (analyze_pattern cfg t now s1)) = CRITICAL_INCREASE"
      using a eq by simp
    note k = analyze_pattern_critical_increase[OF c]
    have "\<not> (readings s \<noteq> [] \<and> t < temperature (last (readings s)))"
    proof
      assume d: "readings s \<noteq> [] \<and> t < temperature (last (readings s))"
      then have "t < temperature (readings s1 ! (length (readings s1) - 2))"
        by (simp add: R deque_append_prev)
      then have "consecutive_increases (track_consecutive t s1) = 0"
        using len by (intro track_consecutive_down) simp_all
      then show False using k by simp
    qed
    then show ?thesis using k eq RS by simp
  qed
  have down: "alert_type (fst (add_reading cfg now t s)) = CRITICAL_DECREASE \<Longrightarrow>
      10 \<le> length (window 10 now (readings (snd (add_reading cfg now t s))))
      \<and> t - temperature (hd (window 10 now (readings (snd (add_reading cfg now t s)))))
           < - TEMP_ALERT_SLOW_INCREASE cfg
      \<and> 5 \<le> r_consecutive_decreases (fst (add_reading cfg now t s))
      \<and> \<not> (readings s \<noteq> [] \<and> temperature (last (readings s)) < t)"
  proof -
    assume a: "alert_type (fst (add_reading cfg now t s)) = CRITICAL_DECREASE"
    have len: "5 \<le> length (readings s1)" and eq: "add_reading cfg now t s = analyze_pattern cfg t now s1"
      using add_reading_critical[of cfg now t s] a by (simp_all add: R s1_def)
    have c: "alert_type (fst (analyze_pattern cfg t now s1)) = CRITICAL_DECREASE"
      using a eq by simp
    note k = analyze_pattern_critical_decrease[OF c]
    have "\<not> (readings s \<noteq> [] \<and> temperature (last (readings s)) < t)"
    proof
      assume d: "readings s \<noteq> [] \<and> temperature (last (readings s)) < t"
      then have "temperature (readings s1 ! (length (readings s1) - 2)) < t"
        by (simp add: R deque_append_prev)
      then have "consecutive_decreases (track_consecutive t s1) = 0"
        using len by (intro track_consecutive_up) simp_all
      then show False using k by simp
    qed
    then show ?thesis using k eq RS by simp
  qed
  show ?thesis using up down by blast
qed

text \<open>
  A call that starts with \<open>consecutive_decreases\<close> at 0 ends with it at 0 unless it ends in
  the recovery from \<open>DOOR_OPENING\<close>: that branch is the only one through which a counted
  decrease outlives the call that counted it.
\<close>

lemma check_recovery_decreases:
  "check_recovery t chg s = Some res \<Longrightarrow>
     consecutive_decreases (snd res) = 0
     \<or> (last_alert s = Some DOOR_OPENING \<and> is_recovering (fst res))"
  by (auto simp: check_recovery_def split: if_splits)

lemma track_consecutive_decreases_from_zero:
  assumes "consecutive_decreases s = 0"
  shows "consecutive_decreases (track_consecutive t s) = 0
       \<or> (consecutive_decreases (track_consecutive t s) = 1
           \<and> consecutive_increases (track_consecutive t s) = 0)"
  using assms by (simp add: track_consecutive_def Let_def)

lemma analyze_pattern_decreases_leak:
  assumes "consecutive_decreases s = 0"
  shows "consecutive_decreases (snd (analyze_pattern cfg t now s)) = 0
       \<or> (last_alert s = Some DOOR_OPENING
           \<and> alert_type (fst (analyze_pattern cfg t now s)) = NONE
           \<and> is_recovering (fst (analyze_pattern cfg t now s)))"
proof (cases cfg t now s rule: analyze_pattern_cases)
  case (rapid b res)
  then show ?thesis using check_rapid_change_Some[OF rapid(2)] assms by simp
next
  case (gradual b r s1)
  note g = check_gradual_change_Some[OF gradual(3)]
  from track_consecutive_decreases_from_zero[OF assms, of t] g(9) g(6)
  have "consecutive_decreases s1 = 0"
    by auto
  then show ?thesis using gradual by simp
next
  case (recovery b res)
  then show ?thesis
    using check_recovery_Some[OF recovery(7)] check_recovery_decreases[OF recovery(7)] by auto
qed (use assms in simp_all)

lemma add_reading_decreases_leak:
  assumes "consecutive_decreases s = 0"
  shows "consecutive_decreases (snd (add_reading cfg now t s)) = 0
       \<or> (last_alert s = Some DOOR_OPENING
           \<and> alert_type (fst (add_reading cfg now t s)) = NONE
           \<and> is_recovering (fst (add_reading cfg now t s)))"
  using assms analyze_pattern_decreases_leak[of
      "update_baseline (s\<lparr>readings := deque_append (readings s) \<lparr>temperature = t, timestamp = now\<rparr>\<rparr>)"
      cfg t now]
  by (auto simp add: add_reading_def Let_def)


section \<open>Claims about the temperature analyzer\<close>

text \<open>
  Claim C9.  After every call of \<open>add_reading\<close> the analyzer's \<open>last_alert\<close> is the
  alert type of the verdict that call returned: every path builds its verdict with
  \<open>_create_result\<close>, which stores the reported kind.
\<close>

theorem add_reading_last_alert:
  "last_alert (snd (add_reading cfg now t s)) = Some (alert_type (fst (add_reading cfg now t s)))"
  by (simp add: add_reading_def Let_def analyze_pattern_last_alert)

text \<open>
  Claim C10.  Neither \<open>_update_baseline\<close> nor \<open>_create_result\<close> touches the consecutive
  counters, and a call whose verdict is \<open>OUT_OF_RANGE\<close> or \<open>DOOR_OPENING\<close> returns before
  the gradual-change check: both counters keep the values they had before the call, and
  the verdict reports those values.
\<close>

theorem counters_frame:
  "consecutive_increases (update_baseline s) = consecutive_increases s
   \<and> consecutive_decreases (update_baseline s) = consecutive_decreases s
   \<and> consecutive_increases (snd (create_result k m r s)) = consecutive_increases s
   \<and> consecutive_decreases (snd (create_result k m r s)) = consecutive_decreases s
   \<and> (alert_type (fst (add_reading cfg now t s)) = OUT_OF_RANGE
        \<or> alert_type (fst (add_reading cfg now t s)) = DOOR_OPENING
      \<longrightarrow> consecutive_increases (snd (add_reading cfg now t s)) = consecutive_increases s
        \<and> consecutive_decreases (snd (add_reading cfg now t s)) = consecutive_decreases s
        \<and> r_consecutive_increases (fst (add_reading cfg now t s)) = consecutive_increases s
        \<and> r_consecutive_decreases (fst (add_reading cfg now t s)) = consecutive_decreases s)"
proof -
  have main: "alert_type (fst (add_reading cfg now t s)) = OUT_OF_RANGE
        \<or> alert_type (fst (add_reading cfg now t s)) = DOOR_OPENING
      \<longrightarrow> consecutive_increases (snd (add_reading cfg now t s)) = consecutive_increases s
        \<and> consecutive_decreases (snd (add_reading cfg now t s)) = consecutive_decreases s
        \<and> r_consecutive_increases (fst (add_reading cfg now t s)) = consecutive_increases s
        \<and> r_consecutive_decreases (fst (add_reading cfg now t s)) = consecutive_decreases s"
  proof (cases "length (deque_append (readings s) \<lparr>temperature = t, timestamp = now\<rparr>) < 5")
    case True
    then show ?thesis by (simp add: add_reading_def Let_def)
  next
    case False
    then show ?thesis
      using analyze_pattern_counters_frame[of cfg t now
          "update_baseline (s\<lparr>readings := deque_append (readings s) \<lparr>temperature = t, timestamp = now\<rparr>\<rparr>)"]
      by (simp add: add_reading_def Let_def)
  qed
  show ?thesis using main by simp
qed

theorem counters_frame_witness:
  "alert_type (fst (add_reading config 105000000 (15 / 2)
                      (snd (feed config door_recovery_trace init_analyzer)))) = DOOR_OPENING
   \<and> consecutive_decreases (snd (feed config door_recovery_trace init_analyzer)) = 1
   \<and> consecutive_decreases (snd (add_reading config 105000000 (15 / 2)
                      (snd (feed config door_recovery_trace init_analyzer)))) = 1"
proof -
  have h: "alert_type (fst (add_reading config 105000000 (15 / 2)
                      (snd (feed config door_recovery_trace init_analyzer)))) = DOOR_OPENING"
    by (simp add: door_recovery_trace_def analyzer_defs)
  have d: "consecutive_decreases (snd (feed config door_recovery_trace init_analyzer)) = 1"
    by (simp add: door_recovery_trace_def analyzer_defs)
  show ?thesis
    using h d counters_frame[where cfg = config and now = 105000000 and t = "15 / 2"
        and s = "snd (feed config door_recovery_trace init_analyzer)"]
    by simp
qed




text \<open>
  Claim C3 says that \<open>CRITICAL_INCREASE\<close> is reported only when the ten-minute delta
  exceeds the threshold and \<open>consecutive_increases\<close> is at least 5, that a path which
  oscillates on its way to the same delta does not trigger it because any strict decrease
  resets the counter, and that the same holds for \<open>CRITICAL_DECREASE\<close> with
  \<open>consecutive_decreases\<close>.  The path below alternates between 7.5 and about 5 degrees,
  every fall preceded by a rise, and its last call reports \<open>CRITICAL_DECREASE\<close> with
  five decreases counted: each fall is counted on a call that ends in the recovery from
  \<open>DOOR_OPENING\<close>, which leaves \<open>consecutive_decreases\<close> as it is (Claim C6), and each
  rise falls on a call that ends in \<open>DOOR_OPENING\<close> before the counters are touched.
\<close>

theorem oscillating_path_reports_critical_decrease:
  "map snd oscillating_trace =
     [4, 4, 4, 4, 15 / 2, 5, 15 / 2, 5, 15 / 2, 5, 15 / 2, 11 / 2, 15 / 2, 2]
   \<and> map alert_type (fst (feed config oscillating_trace init_analyzer)) =
     [NONE, NONE, NONE, NONE, DOOR_OPENING, NONE, DOOR_OPENING, NONE, DOOR_OPENING, NONE,
      DOOR_OPENING, NONE, DOOR_OPENING, CRITICAL_DECREASE]
   \<and> map is_recovering (fst (feed config oscillating_trace init_analyzer)) =
     [False, False, False, False, False, True, False, True, False, True,
      False, True, False, False]
   \<and> map r_consecutive_decreases (fst (feed config oscillating_trace init_analyzer)) =
     [0, 0, 0, 0, 0, 1, 1, 2, 2, 3, 3, 4, 4, 5]"
  by (simp add: oscillating_trace_def analyzer_defs)

text \<open>
  Claim C6 says that a recovery clears the alert with \<open>is_recovering\<close> set and both
  consecutive counters reset.  The recovery from \<open>DOOR_OPENING\<close> resets
  \<open>consecutive_increases\<close> only: after four readings of 4 degrees, one of 7.5
  (\<open>DOOR_OPENING\<close>) and one of 5, the verdict is \<open>NONE\<close> with \<open>is_recovering\<close> set and
  \<open>consecutive_decreases\<close> is 1.
\<close>

theorem door_recovery_keeps_decrease_count:
  "map alert_type (fst (feed config door_recovery_trace init_analyzer)) =
     [NONE, NONE, NONE, NONE, DOOR_OPENING, NONE]
   \<and> is_recovering (last (fst (feed config door_recovery_trace init_analyzer)))
   \<and> r_consecutive_increases (last (fst (feed config door_recovery_trace init_analyzer))) = 0
   \<and> r_consecutive_decreases (last (fst (feed config door_recovery_trace init_analyzer))) = 1
   \<and> consecutive_decreases (snd (feed config door_recovery_trace init_analyzer)) = 1"
  by (simp add: door_recovery_trace_def analyzer_defs)

text \<open>
  Claim C7 says that \<open>temp_change\<close> is the current temperature minus the baseline whenever
  the baseline is set, a baseline of exactly 0.0 included.  After readings of 1 and -1
  degrees the baseline is 0.0, the current temperature -1, and the verdict reports a
  \<open>temp_change\<close> of 0 and no baseline.
\<close>

theorem zero_baseline_reports_no_change:
  "baseline_temp (snd (feed config zero_baseline_trace init_analyzer)) = Some 0
   \<and> map current_temp (fst (feed config zero_baseline_trace init_analyzer)) = [1, - 1]
   \<and> map temp_change (fst (feed config zero_baseline_trace init_analyzer)) = [0, 0]
   \<and> map r_baseline_temp (fst (feed config zero_baseline_trace init_analyzer)) = [Some 1, None]"
  by (simp add: zero_baseline_trace_def analyzer_defs)

section \<open>Claims about the persistence schedule\<close>

lemma second_of_at_clock: "second_of (at_clock d h m s) = s mod 60"
proof -
  have e: "at_clock d h m s div 1000000 = ((d * 24 + h) * 60 + m) * 60 + s"
    by (simp add: at_clock_def)
  show ?thesis unfolding second_of_def e by (rule mod_mult_self3)
qed

lemma minute_of_at_clock:
  assumes "0 \<le> s" "s < 60"
  shows "minute_of (at_clock d h m s) = m mod 60"
proof -
  have "at_clock d h m s div 60000000
          = ((((d * 24 + h) * 60 + m) * 60 + s) * 1000000) div (60 * 1000000)"
    by (simp add: at_clock_def)
  also have "\<dots> = (((d * 24 + h) * 60 + m) * 60 + s) div 60"
    by (rule div_mult_mult2) simp
  also have "\<dots> = ((d * 24 + h) * 60 + m) + s div 60"
    by simp
  also have "\<dots> = (d * 24 + h) * 60 + m"
    using assms by simp
  finally have e: "at_clock d h m s div 60000000 = (d * 24 + h) * 60 + m" .
  show ?thesis unfolding minute_of_def e by (rule mod_mult_self3)
qed

text \<open>
  Claim C4.  \<open>should_save_reading\<close> reads the clock twice.  For any two reads it is true
  exactly when, at the first read, the minute of the hour is 0 and the second of the minute
  is below 5, and either nothing was saved before or, at the second read, at least 3540
  seconds have passed since the last save; with both reads at the same instant this is the
  claim word for word.  On any day, and whatever the second read returns, it is true at
  10:00:02 with no earlier save, false at 10:00:06, false at 10:30:00 after a save at
  10:00:02 (1798 seconds earlier); at 11:00:01 after that save it is true for every second
  read that is not earlier than the first.
\<close>

theorem should_save_reading_iff:
  "(should_save_reading last_save now_a now_b \<longleftrightarrow>
      minute_of now_a = 0 \<and> second_of now_a < 5
      \<and> (last_save = None \<or> (\<exists>l. last_save = Some l \<and> 3540 \<le> total_seconds now_b l)))
   \<and> should_save_reading None (at_clock d 10 0 2) now_b
   \<and> \<not> should_save_reading last_save (at_clock d 10 0 6) now_b
   \<and> \<not> should_save_reading (Some (at_clock d 10 0 2)) (at_clock d 10 30 0) now_b
   \<and> total_seconds (at_clock d 10 30 0) (at_clock d 10 0 2) < 3540
   \<and> (at_clock d 11 0 1 \<le> now_b
        \<longrightarrow> should_save_reading (Some (at_clock d 10 0 2)) (at_clock d 11 0 1) now_b)"
proof -
  have m: "minute_of (at_clock d 10 0 2) = 0" "minute_of (at_clock d 11 0 1) = 0"
    "minute_of (at_clock d 10 30 0) = 30"
    by (simp_all add: minute_of_at_clock)
  have sec: "second_of (at_clock d 10 0 2) = 2" "second_of (at_clock d 11 0 1) = 1"
    "second_of (at_clock d 10 0 6) = 6"
    by (simp_all add: second_of_at_clock)
  have 1: "should_save_reading last_save now_a now_b \<longleftrightarrow>
      minute_of now_a = 0 \<and> second_of now_a < 5
      \<and> (last_save = None \<or> (\<exists>l. last_save = Some l \<and> 3540 \<le> total_seconds now_b l))"
    by (cases last_save) (auto simp: should_save_reading_def is_on_the_hour_def)
  have 2: "should_save_reading None (at_clock d 10 0 2) now_b"
    by (simp add: should_save_reading_def is_on_the_hour_def m sec)
  have 3: "\<not> should_save_reading last_save (at_clock d 10 0 6) now_b"
    by (simp add: should_save_reading_def is_on_the_hour_def sec)
  have 4: "\<not> should_save_reading (Some (at_clock d 10 0 2)) (at_clock d 10 30 0) now_b"
    by (simp add: should_save_reading_def is_on_the_hour_def m)
  have hb: "total_seconds (at_clock d 10 30 0) (at_clock d 10 0 2) < 3540"
    by (simp add: total_seconds_def at_clock_def)
  have ts: "total_seconds (at_clock d 11 0 1) (at_clock d 10 0 2) = 3599"
    by (simp add: total_seconds_def at_clock_def)
  have 5: "at_clock d 11 0 1 \<le> now_b
        \<longrightarrow> should_save_reading (Some (at_clock d 10 0 2)) (at_clock d 11 0 1) now_b"
  proof
    assume le: "at_clock d 11 0 1 \<le> now_b"
    have "total_seconds (at_clock d 11 0 1) (at_clock d 10 0 2)
            \<le> total_seconds now_b (at_clock d 10 0 2)"
      using le by (simp add: total_seconds_def divide_right_mono)
    then have "3540 \<le> total_seconds now_b (at_clock d 10 0 2)"
      using ts by simp
    then show "should_save_reading (Some (at_clock d 10 0 2)) (at_clock d 11 0 1) now_b"
      by (simp add: should_save_reading_def is_on_the_hour_def m sec)
  qed
  show ?thesis using 1 2 3 4 hb 5 by blast
qed

theorem should_save_reading_iff_witness:
  "at_clock 0 11 0 1 \<le> at_clock 0 11 0 1
   \<and> should_save_reading (Some (at_clock 0 10 0 2)) (at_clock 0 11 0 1) (at_clock 0 11 0 1)
   \<and> minute_of (at_clock 0 11 0 1) = 0 \<and> second_of (at_clock 0 11 0 1) < 5
   \<and> 3540 \<le> total_seconds (at_clock 0 11 0 1) (at_clock 0 10 0 2)
   \<and> should_save_reading (Some 32465000000) 36004999999 36005000001
   \<and> minute_of 36004999999 = 0 \<and> second_of 36004999999 < 5
   \<and> 3540 \<le> total_seconds 36005000001 32465000000"
proof -
  have a: "should_save_reading (Some 32465000000) 36004999999 36005000001"
    by (simp add: should_save_reading_def is_on_the_hour_def minute_of_def second_of_def
                  total_seconds_def)
  show ?thesis
    using a
      should_save_reading_iff[of "Some (at_clock 0 10 0 2)" "at_clock 0 11 0 1"
        "at_clock 0 11 0 1" 0]
      should_save_reading_iff[of "Some 32465000000" 36004999999 36005000001 0]
    by (auto simp add: total_seconds_def at_clock_def)
qed

section \<open>Claims about the heartbeat monitor\<close>

lemma timer_ticks_offline:
  "\<not> is_online m \<Longrightarrow> timer_ticks ts m = ([], m)"
proof (induction ts)
  case Nil
  then show ?case by simp
next
  case (Cons t ts)
  have "check_timeout t m = ([], m)"
    using Cons.prems by (simp add: check_timeout_def Let_def split: option.splits)
  then show ?case using Cons by simp
qed

lemma timer_ticks_count:
  assumes "last_heartbeat_time m = Some l" "is_online m"
  shows "count_list (fst (timer_ticks ts m)) device_disconnected =
           (if \<exists>t \<in> set ts. real_of_int (timeout_seconds m) < total_seconds t l then 1 else 0)"
  using assms
proof (induction ts arbitrary: m)
  case Nil
  then show ?case by simp
next
  case (Cons t ts)
  show ?case
  proof (cases "real_of_int (timeout_seconds m) < total_seconds t l")
    case True
    then have c: "check_timeout t m = ([device_disconnected], m\<lparr>is_online := False\<rparr>)"
      using Cons.prems by (simp add: check_timeout_def Let_def)
    have "timer_ticks ts (m\<lparr>is_online := False\<rparr>) = ([], m\<lparr>is_online := False\<rparr>)"
      by (rule timer_ticks_offline) simp
    then show ?thesis using c True by simp
  next
    case False
    then have c: "check_timeout t m = ([], m)"
      using Cons.prems by (simp add: check_timeout_def Let_def)
    obtain evs m2 where r: "timer_ticks ts m = (evs, m2)" by (cases "timer_ticks ts m")
    show ?thesis using Cons.IH[OF Cons.prems] c r False by simp
  qed
qed

text \<open>
  Claim C5.  \<open>_check_timeout\<close> changes nothing and emits nothing while no heartbeat has
  been registered.  Otherwise it sets \<open>is_online\<close> to false and emits
  \<open>device_disconnected\<close> exactly when the time since the last heartbeat is strictly greater
  than the timeout and the monitor is online; at exactly the timeout nothing happens.  After
  one heartbeat, any sequence of later checks emits one disconnect if some check falls
  after the timeout, and none otherwise.
\<close>

theorem check_timeout_edge:
  "(last_heartbeat_time m = None \<longrightarrow> check_timeout now m = ([], m))
   \<and> (last_heartbeat_time m = Some l \<longrightarrow>
        check_timeout now m =
          (if real_of_int (timeout_seconds m) < total_seconds now l \<and> is_online m
           then ([device_disconnected], m\<lparr>is_online := False\<rparr>)
           else ([], m)))
   \<and> (last_heartbeat_time m = Some l \<and> total_seconds now l = real_of_int (timeout_seconds m)
        \<longrightarrow> check_timeout now m = ([], m))
   \<and> count_list (fst (timer_ticks ts (snd (register_heartbeat t0 m)))) device_disconnected =
        (if \<exists>t \<in> set ts. real_of_int (timeout_seconds m) < total_seconds t t0 then 1 else 0)"
proof -
  have a: "last_heartbeat_time m = None \<longrightarrow> check_timeout now m = ([], m)"
    by (simp add: check_timeout_def)
  have b: "last_heartbeat_time m = Some l \<longrightarrow>
        check_timeout now m =
          (if real_of_int (timeout_seconds m) < total_seconds now l \<and> is_online m
           then ([device_disconnected], m\<lparr>is_online := False\<rparr>)
           else ([], m))"
    by (simp add: check_timeout_def Let_def)
  have c: "last_heartbeat_time m = Some l \<and> total_seconds now l = real_of_int (timeout_seconds m)
        \<longrightarrow> check_timeout now m = ([], m)"
    by (simp add: check_timeout_def Let_def)
  have d: "count_list (fst (timer_ticks ts (snd (register_heartbeat t0 m)))) device_disconnected =
        (if \<exists>t \<in> set ts. real_of_int (timeout_seconds m) < total_seconds t t0 then 1 else 0)"
    using timer_ticks_count[of "snd (register_heartbeat t0 m)" t0 ts]
    by (simp add: register_heartbeat_def Let_def)
  show ?thesis using a b c d by blast
qed

theorem check_timeout_edge_witness:
  "check_timeout 7000000 (init_monitor config) = ([], init_monitor config)
   \<and> check_timeout 6000000 (snd (register_heartbeat 0 (init_monitor config)))
       = ([], snd (register_heartbeat 0 (init_monitor config)))
   \<and> check_timeout 7000000 (snd (register_heartbeat 0 (init_monitor config)))
       = ([device_disconnected], (snd (register_heartbeat 0 (init_monitor config)))\<lparr>is_online := False\<rparr>)
   \<and> count_list (fst (timer_ticks [5000000, 6000000, 7000000, 8000000, 9000000]
                        (snd (register_heartbeat 0 (init_monitor config))))) device_disconnected = 1"
proof -
  have n: "last_heartbeat_time (init_monitor config) = None"
    by (simp add: init_monitor_def)
  have s: "last_heartbeat_time (snd (register_heartbeat 0 (init_monitor config))) = Some 0"
    by (simp add: register_heartbeat_def Let_def)
  have e: "total_seconds 6000000 0 = real_of_int (timeout_seconds (snd (register_heartbeat 0 (init_monitor config))))"
    by (simp add: register_heartbeat_def Let_def init_monitor_def config_def total_seconds_def)
  show ?thesis
    using n s e
      check_timeout_edge[of "init_monitor config" 7000000 0 "[5000000, 6000000, 7000000, 8000000, 9000000]" 0]
      check_timeout_edge[of "snd (register_heartbeat 0 (init_monitor config))" 6000000 0 "[]" 0]
      check_timeout_edge[of "snd (register_heartbeat 0 (init_monitor config))" 7000000 0 "[]" 0]
    by (simp add: register_heartbeat_def Let_def init_monitor_def config_def total_seconds_def)
qed

section \<open>Claims about the data manager\<close>

lemma should_save_reading_later:
  assumes "should_save_reading last_save now_a now_b"
    and "is_on_the_hour now_a'" and "now_b \<le> now_b'"
  shows "should_save_reading last_save now_a' now_b'"
proof (cases last_save)
  case None
  then show ?thesis using assms by (simp add: should_save_reading_def)
next
  case (Some l)
  have "total_seconds now_b l \<le> total_seconds now_b' l"
    using assms(3) by (simp add: total_seconds_def divide_right_mono)
  then show ?thesis using assms Some
    by (auto simp: should_save_reading_def split: if_splits)
qed

text \<open>
  Claim C8.  \<open>_save_to_database\<close> advances \<open>last_save_time\<close> and
  \<open>total_readings_saved\<close> only when the storage call returns a record.  When the call
  returns nothing or raises, the manager is unchanged and no signal is emitted, so a save
  that was due is due again at every later acceptance window.
\<close>

theorem save_advances_only_on_success:
  "(outcome = Raises \<or> outcome = Returns None
      \<longrightarrow> save_to_database now outcome dm = ([], dm))
   \<and> (outcome = Returns (Some reading)
      \<longrightarrow> last_save_time (snd (save_to_database now outcome dm)) = Some now
        \<and> total_readings_saved (snd (save_to_database now outcome dm))
            = total_readings_saved dm + 1)
   \<and> (last_save_time (snd (save_to_database now outcome dm)) \<noteq> last_save_time dm
        \<or> total_readings_saved (snd (save_to_database now outcome dm)) \<noteq> total_readings_saved dm
      \<longrightarrow> (\<exists>r. outcome = Returns (Some r)))
   \<and> ((outcome = Raises \<or> outcome = Returns None)
        \<and> cd_temperature (current dm) \<noteq> None
        \<and> should_save_reading (last_save_time dm) now_a now_b
        \<and> is_on_the_hour now_a' \<and> now_b \<le> now_b'
      \<longrightarrow> snd (check_save_to_db now_a now_b now outcome dm) = dm
        \<and> check_save_to_db now_a' now_b' now' outcome' dm = save_to_database now' outcome' dm)"
proof -
  have a: "outcome = Raises \<or> outcome = Returns None
      \<longrightarrow> save_to_database now outcome dm = ([], dm)"
    by (auto simp: save_to_database_def)
  have b: "outcome = Returns (Some reading)
      \<longrightarrow> last_save_time (snd (save_to_database now outcome dm)) = Some now
        \<and> total_readings_saved (snd (save_to_database now outcome dm))
            = total_readings_saved dm + 1"
    by (simp add: save_to_database_def Let_def)
  have c: "last_save_time (snd (save_to_database now outcome dm)) \<noteq> last_save_time dm
        \<or> total_readings_saved (snd (save_to_database now outcome dm)) \<noteq> total_readings_saved dm
      \<longrightarrow> (\<exists>r. outcome = Returns (Some r))"
    by (cases outcome) (auto simp: save_to_database_def split: option.splits)
  have d: "(outcome = Raises \<or> outcome = Returns None)
        \<and> cd_temperature (current dm) \<noteq> None
        \<and> should_save_reading (last_save_time dm) now_a now_b
        \<and> is_on_the_hour now_a' \<and> now_b \<le> now_b'
      \<longrightarrow> snd (check_save_to_db now_a now_b now outcome dm) = dm
        \<and> check_save_to_db now_a' now_b' now' outcome' dm = save_to_database now' outcome' dm"
  proof (intro impI)
    assume h: "(outcome = Raises \<or> outcome = Returns None)
        \<and> cd_temperature (current dm) \<noteq> None
        \<and> should_save_reading (last_save_time dm) now_a now_b
        \<and> is_on_the_hour now_a' \<and> now_b \<le> now_b'"
    then have l: "should_save_reading (last_save_time dm) now_a' now_b'"
      using should_save_reading_later by blast
    have 1: "snd (check_save_to_db now_a now_b now outcome dm) = dm"
      using h a by (auto simp: check_save_to_db_def)
    have 2: "check_save_to_db now_a' now_b' now' outcome' dm = save_to_database now' outcome' dm"
      using h l by (auto simp: check_save_to_db_def)
    show "snd (check_save_to_db now_a now_b now outcome dm) = dm
        \<and> check_save_to_db now_a' now_b' now' outcome' dm = save_to_database now' outcome' dm"
      using 1 2 by simp
  qed
  show ?thesis using a b c d by blast
qed

theorem save_advances_only_on_success_witness:
  "save_to_database (at_clock 0 10 0 2) Raises
      (snd (process_sensor_data config 15000000 (sensor_msg 4 15000000)
              (init_data_manager ''esp32-fridge-001'')))
     = ([], snd (process_sensor_data config 15000000 (sensor_msg 4 15000000)
              (init_data_manager ''esp32-fridge-001'')))
   \<and> last_save_time (snd (save_to_database (at_clock 0 10 0 2)
        (Returns (Some \<lparr>sr_temperature = 4, sr_recorded_at = at_clock 0 10 0 2\<rparr>))
        (snd (process_sensor_data config 15000000 (sensor_msg 4 15000000)
              (init_data_manager ''esp32-fridge-001''))))) = Some (at_clock 0 10 0 2)
   \<and> check_save_to_db (at_clock 0 11 0 1) (at_clock 0 11 0 1) (at_clock 0 11 0 1)
        (Returns (Some \<lparr>sr_temperature = 4, sr_recorded_at = at_clock 0 11 0 1\<rparr>))
        (snd (process_sensor_data config 15000000 (sensor_msg 4 15000000)
              (init_data_manager ''esp32-fridge-001'')))
     = save_to_database (at_clock 0 11 0 1)
        (Returns (Some \<lparr>sr_temperature = 4, sr_recorded_at = at_clock 0 11 0 1\<rparr>))
        (snd (process_sensor_data config 15000000 (sensor_msg 4 15000000)
              (init_data_manager ''esp32-fridge-001'')))"
proof -
  have t: "cd_temperature (current (snd (process_sensor_data config 15000000 (sensor_msg 4 15000000)
              (init_data_manager ''esp32-fridge-001'')))) \<noteq> None"
    by (simp add: process_sensor_data_def Let_def sensor_msg_def split: prod.splits)
  have l: "last_save_time (snd (process_sensor_data config 15000000 (sensor_msg 4 15000000)
              (init_data_manager ''esp32-fridge-001''))) = None"
    by (simp add: process_sensor_data_def Let_def init_data_manager_def split: prod.splits)
  have h1: "is_on_the_hour (at_clock 0 10 0 2)" and h2: "is_on_the_hour (at_clock 0 11 0 1)"
    by (simp_all add: is_on_the_hour_def minute_of_def second_of_def at_clock_def)
  have d: "should_save_reading (last_save_time (snd (process_sensor_data config 15000000
              (sensor_msg 4 15000000) (init_data_manager ''esp32-fridge-001''))))
             (at_clock 0 10 0 2) (at_clock 0 10 0 2)"
    using h1 by (simp add: l should_save_reading_def)
  have o: "at_clock 0 10 0 2 \<le> at_clock 0 11 0 1"
    by (simp add: at_clock_def)
  show ?thesis
    using t d h2 o
      save_advances_only_on_success[of Raises "at_clock 0 10 0 2"
        "snd (process_sensor_data config 15000000 (sensor_msg 4 15000000)
              (init_data_manager ''esp32-fridge-001''))"
        "\<lparr>sr_temperature = 4, sr_recorded_at = at_clock 0 10 0 2\<rparr>"
        "at_clock 0 10 0 2" "at_clock 0 10 0 2" "at_clock 0 11 0 1" "at_clock 0 11 0 1"
        "at_clock 0 11 0 1"
        "Returns (Some \<lparr>sr_temperature = 4, sr_recorded_at = at_clock 0 11 0 1\<rparr>)"]
      save_advances_only_on_success[of
        "Returns (Some \<lparr>sr_temperature = 4, sr_recorded_at = at_clock 0 10 0 2\<rparr>)"
        "at_clock 0 10 0 2"
        "snd (process_sensor_data config 15000000 (sensor_msg 4 15000000)
              (init_data_manager ''esp32-fridge-001''))"
        "\<lparr>sr_temperature = 4, sr_recorded_at = at_clock 0 10 0 2\<rparr>"]
    by simp
qed

lemma process_sensor_data_alerts:
  "alert_kinds (fst (process_sensor_data cfg now data dm)) =
     (if alert_type (fst (add_reading cfg now (d_temperature data) (temp_analyzer dm))) = NONE
      then []
      else [alert_type (fst (add_reading cfg now (d_temperature data) (temp_analyzer dm)))])"
  by (simp add: process_sensor_data_def Let_def split: prod.splits)

lemma process_sensor_data_analyzer:
  "temp_analyzer (snd (process_sensor_data cfg now data dm)) =
     snd (add_reading cfg now (d_temperature data) (temp_analyzer dm))"
  by (simp add: process_sensor_data_def Let_def split: prod.splits)

text \<open>
  Claim C2, as stated: an alert event is emitted only when the verdict's kind differs from
  the kind of the event emitted last.  The manager keeps no record of what it emitted: two
  consecutive readings of 9 degrees, both \<open>OUT_OF_RANGE\<close>, each emit an alert.
\<close>

theorem repeated_alert_emitted_twice_counterexample:
  "map alert_kinds
     (fst (process_all config
             [(15000000, sensor_msg 4 15000000), (30000000, sensor_msg 4 30000000),
              (45000000, sensor_msg 4 45000000), (60000000, sensor_msg 4 60000000),
              (75000000, sensor_msg 9 75000000), (90000000, sensor_msg 9 90000000)]
             (init_data_manager ''esp32-fridge-001''))) =
     [[], [], [], [], [OUT_OF_RANGE], [OUT_OF_RANGE]]"
  by (simp add: process_sensor_data_def sensor_msg_def init_data_manager_def analyzer_defs)

text \<open>
  Claim C2, amended.  \<open>process_sensor_data\<close> emits a temperature alert on a reading exactly
  when the verdict of that reading is not \<open>NONE\<close>, whatever was emitted before: over any
  sequence of messages the kinds emitted are the kinds of the verdicts with \<open>NONE\<close> left
  out, repetitions included.
\<close>

theorem alert_emitted_iff_not_none:
  "alert_kinds (fst (process_sensor_data cfg now data dm)) =
     (if alert_type (fst (add_reading cfg now (d_temperature data) (temp_analyzer dm))) = NONE
      then []
      else [alert_type (fst (add_reading cfg now (d_temperature data) (temp_analyzer dm)))])
   \<and> concat (map alert_kinds (fst (process_all cfg msgs dm))) =
       filter (\<lambda>k. k \<noteq> NONE)
         (map alert_type
            (fst (feed cfg (map (\<lambda>(now, data). (now, d_temperature data)) msgs)
                    (temp_analyzer dm))))"
proof -
  have seq: "concat (map alert_kinds (fst (process_all cfg msgs dm))) =
       filter (\<lambda>k. k \<noteq> NONE)
         (map alert_type
            (fst (feed cfg (map (\<lambda>(now, data). (now, d_temperature data)) msgs)
                    (temp_analyzer dm))))"
  proof (induction msgs arbitrary: dm)
    case Nil
    then show ?case by simp
  next
    case (Cons x msgs)
    obtain now data where x: "x = (now, data)" by (cases x)
    obtain sigs dm1 where p: "process_sensor_data cfg now data dm = (sigs, dm1)"
      by (cases "process_sensor_data cfg now data dm")
    obtain a s1 where r: "add_reading cfg now (d_temperature data) (temp_analyzer dm) = (a, s1)"
      by (cases "add_reading cfg now (d_temperature data) (temp_analyzer dm)")
    have k: "alert_kinds sigs = (if alert_type a = NONE then [] else [alert_type a])"
      using process_sensor_data_alerts[of cfg now data dm] p r by simp
    have t: "temp_analyzer dm1 = s1"
      using process_sensor_data_analyzer[of cfg now data dm] p r by simp
    obtain sigss dm2 where q: "process_all cfg msgs dm1 = (sigss, dm2)"
      by (cases "process_all cfg msgs dm1")
    obtain as s2 where f: "feed cfg (map (\<lambda>(now, data). (now, d_temperature data)) msgs) s1 = (as, s2)"
      by (cases "feed cfg (map (\<lambda>(now, data). (now, d_temperature data)) msgs) s1")
    show ?case using Cons.IH[of dm1] x p r k t q f by simp
  qed
  show ?thesis using process_sensor_data_alerts seq by blast
qed

theorem alert_emitted_iff_not_none_witness:
  "alert_kinds (fst (process_sensor_data config 75000000 (sensor_msg 9 75000000)
      (snd (process_all config
             [(15000000, sensor_msg 4 15000000), (30000000, sensor_msg 4 30000000),
              (45000000, sensor_msg 4 45000000), (60000000, sensor_msg 4 60000000)]
             (init_data_manager ''esp32-fridge-001''))))) = [OUT_OF_RANGE]"
proof -
  have a: "alert_type (fst (add_reading config 75000000 (d_temperature (sensor_msg 9 75000000))
      (temp_analyzer (snd (process_all config
             [(15000000, sensor_msg 4 15000000), (30000000, sensor_msg 4 30000000),
              (45000000, sensor_msg 4 45000000), (60000000, sensor_msg 4 60000000)]
             (init_data_manager ''esp32-fridge-001'')))))) = OUT_OF_RANGE"
    by (simp add: process_sensor_data_def sensor_msg_def init_data_manager_def analyzer_defs)
  show ?thesis
    using a alert_emitted_iff_not_none[of config 75000000 "sensor_msg 9 75000000"
      "snd (process_all config
             [(15000000, sensor_msg 4 15000000), (30000000, sensor_msg 4 30000000),
              (45000000, sensor_msg 4 45000000), (60000000, sensor_msg 4 60000000)]
             (init_data_manager ''esp32-fridge-001''))" "[]"]
    by simp
qed

end
